theory Spec2Isabelle
  imports Complex_Main
begin

section \<open>Shared data model (common-types.ts)\<close>

subsection \<open>JavaScript values and property reads\<close>

text \<open>
  A credential reaches \<open>isFirebaseCredential\<close> as a JavaScript value. Objects live in a
  store and are passed by reference; an object is a finite table from property names to
  values. Only data properties are modelled (credentials are plain data: no accessor
  property, no proxy), and the table of an object holds every property a read can see
  on it. A property whose value is \<open>undefined\<close> is a table entry \<open>Some Undefined\<close>;
  a property the object does not have is \<open>None\<close>.
\<close>

type_synonym addr = nat

datatype js_value =
    Undefined
  | Null
  | Boolean bool
  | Number int
  | String string
  | Reference addr

type_synonym js_object = "string \<rightharpoonup> js_value"

type_synonym store = "addr \<Rightarrow> js_object"

datatype js_error = TypeError

text \<open>
  The member expression \<open>v.name\<close>. Reading a property of \<open>undefined\<close> or \<open>null\<close>
  throws a TypeError. Reading a property an object does not have yields \<open>undefined\<close>.
  A primitive boolean, number or string is boxed for the read; the wrapper prototypes'
  own properties (such as \<open>length\<close>) are not modelled, so the read yields \<open>undefined\<close>
  for every other name. The store is returned as it was: a read writes nothing.
\<close>

fun get_property :: "js_value \<Rightarrow> string \<Rightarrow> store \<Rightarrow> (js_error + js_value) \<times> store" where
  "get_property Undefined name s = (Inl TypeError, s)"
| "get_property Null name s = (Inl TypeError, s)"
| "get_property (Reference a) name s =
     (Inr (case s a name of None \<Rightarrow> Undefined | Some v \<Rightarrow> v), s)"
| "get_property (Boolean b) name s = (Inr Undefined, s)"
| "get_property (Number n) name s = (Inr Undefined, s)"
| "get_property (String t) name s = (Inr Undefined, s)"

text \<open>
  The strict inequality \<open>x !== y\<close>: no coercion. Two references are equal when they
  are the same object.
\<close>

definition strict_not_equal :: "js_value \<Rightarrow> js_value \<Rightarrow> bool" where
  "strict_not_equal x y = (x \<noteq> y)"

subsection \<open>The credential type guard\<close>

text \<open>
  \<^verbatim>\<open>
  export function isFirebaseCredential(
    credential: firebase.auth.OAuthCredential | Credentials
  ): credential is firebase.auth.OAuthCredential {
    return (
      (credential as firebase.auth.OAuthCredential).signInMethod !== undefined
    );
  }
  \<close>
  The cast is erased at run time. The result is the thrown error or the returned
  boolean, together with the store after the call.
\<close>

definition isFirebaseCredential :: "js_value \<Rightarrow> store \<Rightarrow> (js_error + bool) \<times> store" where
  "isFirebaseCredential credential s =
     (case get_property credential ''signInMethod'' s of
        (Inl e, s') \<Rightarrow> (Inl e, s')
      | (Inr v, s') \<Rightarrow> (Inr (strict_not_equal v Undefined), s'))"

text \<open>
  Modelled from the spec: the two members of the declared union,
  \<open>firebase.auth.OAuthCredential\<close> and google-auth-library's \<open>Credentials\<close>, are
  declared in packages outside the repository. The spec describes a value shaped as an
  OAuth-style credential as one whose sign-in-method field is present and non-absent,
  and a value shaped as a service credential as one with no sign-in-method field. Both
  are objects.
\<close>

fun is_OAuthCredential :: "store \<Rightarrow> js_value \<Rightarrow> bool" where
  "is_OAuthCredential s (Reference a) =
     (case s a ''signInMethod'' of None \<Rightarrow> False | Some v \<Rightarrow> v \<noteq> Undefined)"
| "is_OAuthCredential s v = False"

fun is_Credentials :: "store \<Rightarrow> js_value \<Rightarrow> bool" where
  "is_Credentials s (Reference a) = (s a ''signInMethod'' = None)"
| "is_Credentials s v = False"

text \<open>A store for examples: every address holds the object without properties.\<close>

definition empty_store :: store where
  "empty_store = (\<lambda>a. Map.empty)"

text \<open>
  Two example objects: an OAuth credential as Firebase issues it for a Twitter sign-in,
  and a service credential as google-auth-library holds it.
\<close>

definition example_oauth :: js_object where
  "example_oauth =
     [''providerId'' \<mapsto> String ''twitter.com'',
      ''signInMethod'' \<mapsto> String ''twitter.com'',
      ''accessToken'' \<mapsto> String ''token'',
      ''secret'' \<mapsto> String ''secret'']"

definition example_service :: js_object where
  "example_service =
     [''access_token'' \<mapsto> String ''ya29'',
      ''refresh_token'' \<mapsto> Null,
      ''expiry_date'' \<mapsto> Number 1600000000000,
      ''token_type'' \<mapsto> String ''Bearer'']"

definition example_store :: store where
  "example_store = empty_store(10 := example_oauth, 20 := example_service)"

text \<open>
  A service credential to which a \<open>signInMethod\<close> property has been added: every
  property of \<open>example_service\<close>, and the extra one.
\<close>

definition example_service_with_signInMethod :: js_object where
  "example_service_with_signInMethod = example_service(''signInMethod'' \<mapsto> String ''password'')"

subsection \<open>Tweet fetching: request and response\<close>

text \<open>
  \<^verbatim>\<open>
  export interface GetTweetsRequest {
    credentials?: firebase.auth.UserCredential;
    nextPageToken?: string;
    fromDate: string; // yyyymmddhhmm format is expected here.
    toDate: string; // yyyymmddhhmm format is expected here.
  }
  export interface GetTweetsResponse {
    tweets: Tweet[];
    nextPageToken?: string;
  }
  \<close>
  An optional property is an \<open>option\<close>: \<open>None\<close> when it is absent (or
  \<open>undefined\<close>). The credential and the tweet are type parameters: no property of
  either is read here.
\<close>

record 'credential GetTweetsRequest =
  credentials :: "'credential option"
  nextPageToken :: "string option"
  fromDate :: string
  toDate :: string

record 'tweet GetTweetsResponse =
  tweets :: "'tweet list"
  nextPageToken :: "string option"

text \<open>
  Modelled from the spec: the consumer that pages through tweets is not part of the two
  files. The spec says that an absent continuation token signals that there are no further
  pages.
\<close>

definition is_final_page :: "'tweet GetTweetsResponse \<Rightarrow> bool" where
  "is_final_page response = (GetTweetsResponse.nextPageToken response = None)"

text \<open>
  Modelled from the spec: the request for the next page, which the same missing consumer
  would build. The spec says that with a present token the consumer issues a follow-up
  request using that token as \<open>nextPageToken\<close> while holding \<open>fromDate\<close> and
  \<open>toDate\<close> fixed; from the final page there is no follow-up request.
\<close>

definition follow_up_request ::
  "'credential GetTweetsRequest \<Rightarrow> 'tweet GetTweetsResponse \<Rightarrow> 'credential GetTweetsRequest option"
where
  "follow_up_request request response =
     (case GetTweetsResponse.nextPageToken response of
        None \<Rightarrow> None
      | Some token \<Rightarrow> Some (request\<lparr>GetTweetsRequest.nextPageToken := Some token\<rparr>))"

definition example_request :: "unit GetTweetsRequest" where
  "example_request =
     \<lparr>credentials = None, GetTweetsRequest.nextPageToken = None,
      fromDate = ''202011160000'', toDate = ''202011170000''\<rparr>"

definition example_page :: "unit GetTweetsResponse" where
  "example_page = \<lparr>tweets = [(), ()], GetTweetsResponse.nextPageToken = Some ''cursor-2''\<rparr>"

definition example_last_page :: "unit GetTweetsResponse" where
  "example_last_page = \<lparr>tweets = [()], GetTweetsResponse.nextPageToken = None\<rparr>"

subsection \<open>Block and mute responses\<close>

text \<open>
  \<^verbatim>\<open>
  export interface BlockTwitterUsersResponse {
    error?: string;
    failedScreennames?: string[]; // Twitter screen names
  }
  export interface MuteTwitterUsersResponse {
    error?: string;
    failedScreennames?: string[]; // Twitter screen names
  }
  \<close>
\<close>

record BlockTwitterUsersResponse =
  error :: "string option"
  failedScreennames :: "string list option"

record MuteTwitterUsersResponse =
  error :: "string option"
  failedScreennames :: "string list option"

text \<open>
  Modelled from the spec: no code of the two files reads a response. The spec names three
  outcomes: total failure when the top-level \<open>error\<close> is set; otherwise full success
  when \<open>failedScreennames\<close> is empty or absent, and partial success when it is
  non-empty.
\<close>

datatype batch_outcome = FullSuccess | PartialSuccess | TotalFailure

text \<open>
  Modelled from the spec: the outcome read off the two optional properties, the consumer
  of the responses being outside the two files. A set \<open>error\<close> is a total failure
  whatever the list holds.
\<close>

fun action_outcome :: "string option \<Rightarrow> string list option \<Rightarrow> batch_outcome" where
  "action_outcome (Some message) failed = TotalFailure"
| "action_outcome None None = FullSuccess"
| "action_outcome None (Some []) = FullSuccess"
| "action_outcome None (Some (name # names)) = PartialSuccess"

text \<open>
  Modelled from the spec: the outcome of a block response and of a mute response, by the
  same reading of their two properties.
\<close>

definition block_outcome :: "BlockTwitterUsersResponse \<Rightarrow> batch_outcome" where
  "block_outcome response =
     action_outcome (BlockTwitterUsersResponse.error response)
       (BlockTwitterUsersResponse.failedScreennames response)"

definition mute_outcome :: "MuteTwitterUsersResponse \<Rightarrow> batch_outcome" where
  "mute_outcome response =
     action_outcome (MuteTwitterUsersResponse.error response)
       (MuteTwitterUsersResponse.failedScreennames response)"

subsection \<open>CSV templates\<close>

text \<open>
  \<^verbatim>\<open>
  export interface CsvFileTemplate {
    title: string;
    header: string[];
    bodyRows: string[][];
  }
  \<close>
\<close>

record CsvFileTemplate =
  title :: string
  header :: "string list"
  bodyRows :: "string list list"

text \<open>
  Modelled from the spec: the interface declares no check, and none is in the two files.
  The spec's invariant is that every body row has the same length as the header row; the
  check walks the body rows and compares each length with the header's.
\<close>

fun rows_have_length :: "nat \<Rightarrow> string list list \<Rightarrow> bool" where
  "rows_have_length n [] = True"
| "rows_have_length n (row # rows) = (length row = n \<and> rows_have_length n rows)"

text \<open>
  Modelled from the spec: a template is well-formed when the check passes on its body
  rows with the length of its header row.
\<close>

definition csv_well_formed :: "CsvFileTemplate \<Rightarrow> bool" where
  "csv_well_formed template = rows_have_length (length (header template)) (bodyRows template)"

text \<open>
  The spec's example: a header of two columns with three rows of matching length, and
  the same template with one more row, of mismatched length.
\<close>

definition valid_template :: CsvFileTemplate where
  "valid_template =
     \<lparr>title = ''Report'',
      header = [''Comment'', ''Toxicity''],
      bodyRows = [[''first'', ''0.91''], [''second'', ''0.85''], [''third'', ''0.12'']]\<rparr>"

definition invalid_template :: CsvFileTemplate where
  "invalid_template = valid_template\<lparr>bodyRows := bodyRows valid_template @ [[''fourth'']]\<rparr>"

subsection \<open>Steps of the report wizard\<close>

text \<open>
  \<^verbatim>\<open>
  export enum BuildReportStep {
    NONE,
    ADD_COMMENTS,
    EDIT_DETAILS,
    TAKE_ACTION,
    COMPLETE,
  }
  \<close>
  A numeric enum of TypeScript: a member without an initializer gets 0 when it is the
  first, and one more than the member before it otherwise; a member with an initializer
  gets that number. \<open>enum_values\<close> numbers the members of a declaration in this way,
  and the value of a step is the number its member got.
\<close>

datatype BuildReportStep = NONE | ADD_COMMENTS | EDIT_DETAILS | TAKE_ACTION | COMPLETE

fun enum_values :: "int \<Rightarrow> ('a \<times> int option) list \<Rightarrow> ('a \<times> int) list" where
  "enum_values n [] = []"
| "enum_values n ((member, None) # members) = (member, n) # enum_values (n + 1) members"
| "enum_values n ((member, Some i) # members) = (member, i) # enum_values (i + 1) members"

definition BuildReportStep_members :: "(BuildReportStep \<times> int option) list" where
  "BuildReportStep_members =
     [(NONE, None), (ADD_COMMENTS, None), (EDIT_DETAILS, None), (TAKE_ACTION, None),
      (COMPLETE, None)]"

definition BuildReportStep_value :: "BuildReportStep \<Rightarrow> int option" where
  "BuildReportStep_value step = map_of (enum_values 0 BuildReportStep_members) step"

text \<open>The comparison \<open>a < b\<close> of two steps: the comparison of their numbers.\<close>

definition step_less :: "BuildReportStep \<Rightarrow> BuildReportStep \<Rightarrow> bool" where
  "step_less a b =
     (case (BuildReportStep_value a, BuildReportStep_value b) of
        (Some x, Some y) \<Rightarrow> x < y
      | _ \<Rightarrow> False)"

section \<open>Global stylesheet (styles.scss)\<close>

subsection \<open>Syntax of the stylesheet\<close>

text \<open>
  The stylesheet is a list of statements in source order. A style rule has a list of
  selectors, its declarations, and the rules nested in it. Comments are dropped, and a
  selector written over several lines is one string with single spaces. A declaration
  has a property name, a value and the \<open>!important\<close> flag; the value is kept as its
  source text, except for the two \<open>inset(...)\<close> values, which are kept as their
  arguments. The mixins \<open>mat-core\<close>, \<open>angular-material-theme\<close> and
  \<open>angular-material-typography\<close> belong to the component library: an \<open>Include\<close>
  of one records the call and contributes no declaration of this file.
\<close>

datatype length_percentage =
    Percent rat
  | Var string
  | Calc_minus length_percentage length_percentage

datatype css_value =
    Raw string
  | Inset "length_percentage list"

datatype css_declaration =
  Declaration (property: string) (val: css_value) (important: bool)

datatype css_rule =
  Rule (selectors: "string list") (declarations: "css_declaration list") (nested: "css_rule list")

datatype scss_statement =
    Import string
  | Include string string
  | Variable string string
  | Style css_rule

abbreviation decl :: "string \<Rightarrow> string \<Rightarrow> css_declaration" where
  "decl p v \<equiv> Declaration p (Raw v) False"

abbreviation decl_important :: "string \<Rightarrow> string \<Rightarrow> css_declaration" where
  "decl_important p v \<equiv> Declaration p (Raw v) True"

subsection \<open>The stylesheet\<close>

text \<open>
  The statements of styles.scss, in the order of the file, in ten groups. The mixin
  \<open>max-slide-toggle-theme($color, $left-offset)\<close> is a function of its two
  arguments that yields the three rules of its body. The two declarations that the
  properties below turn on, as the file writes them:
  \<^verbatim>\<open>
  app-toxicity-range-filter .noUi-connect {
    background: linear-gradient(to right, #4d9966 0%, #9da1a3 50%, #e37400 100%);
    clip-path: inset(0% calc(100% - var(--max-score)) 0% var(--min-score));
    transform: none !important;
  }
  .toxicity-tooltip,
  .unscored-tooltip,
  .actions-tooltip {
    ...
    padding: 16px !important; // !important required to override default padding
  }
  \<close>
\<close>

definition theme_setup :: "scss_statement list" where
  \<open>theme_setup =
    [Import ''url('//fonts.googleapis.com/css?family=Google+Sans:400,500,600')'',
     Import ''url(../node_modules/nouislider/distribute/nouislider.css)'',
     Import ''~@angular/material/theming'',
     Include ''mat-core'' '''',
     Import ''~@angular/cdk/overlay-prebuilt.css'',
     Variable ''$documentation-app-primary'' ''mat-palette($mat-pink, 800, 600, 900)'',
     Variable ''$documentation-app-accent'' ''mat-palette($mat-purple, A200, A100, A400)'',
     Variable ''$documentation-app-warn'' ''mat-palette($mat-red)'',
     Variable ''$documentation-app-theme''
       ''mat-light-theme($documentation-app-primary, $documentation-app-accent, $documentation-app-warn)'',
     Include ''angular-material-theme'' ''$documentation-app-theme'',
     Style (Rule [''*''] [decl ''font-family'' '''Google Sans', Arial, sans-serif''] []),
     Include ''angular-material-typography''
       ''mat-typography-config($font-family: '"Google Sans", Arial, sans-serif')'',
     Style (Rule [''div'', ''h1'', ''h2'', ''h3'', ''p''] [decl ''font-weight'' ''400''] []),
     Style (Rule [''body''] [decl ''height'' ''100vh'', decl ''margin'' ''0px''] [])]\<close>

definition dialog_overrides :: "scss_statement list" where
  "dialog_overrides =
    [Style (Rule
       [''.mat-list-base .comment-card .mat-list-option.list-item-container .mat-list-item-content-reverse .mat-list-text'']
       [decl ''align-self'' ''flex-start''] []),
     Style (Rule [''.action-warning-dialog-container'', ''.api-error-dialog-container''] []
       [Rule [''.mat-dialog-container'']
          [decl ''border-radius'' ''20px'',
           decl ''padding-left'' ''32px'',
           decl ''padding-right'' ''26px'',
           decl ''padding-top'' ''28px''] []]),
     Style (Rule [''.exit-dialog-container .mat-dialog-container'']
       [decl ''background'' ''none'',
        decl ''box-shadow'' ''none'',
        decl ''padding'' ''0px''] []),
     Style (Rule [''.loading-dialog-container .mat-dialog-container'']
       [decl ''border-radius'' ''8px''] []),
     Style (Rule [''.clear-report-dialog-container .mat-dialog-container'']
       [decl ''border-radius'' ''20px'',
        decl ''width'' ''633px''] []),
     Style (Rule [''.comment-card .mat-list-option.list-item-container .mat-pseudo-checkbox'']
       [decl ''align-self'' ''flex-start''] [])]"

definition help_center_overrides :: "scss_statement list" where
  "help_center_overrides =
    [Style (Rule [''app-help-center .mat-form-field-appearance-outline .mat-form-field-outline-start'']
       [decl ''border-radius'' ''30px 0 0 30px'',
        decl ''min-width'' ''40px''] []),
     Style (Rule [''app-help-center .mat-form-field-appearance-outline .mat-form-field-outline'']
       [decl ''background-color'' ''#ffffff'',
        decl ''border-radius'' ''30px''] []),
     Style (Rule [''app-help-center .mat-form-field-appearance-outline .mat-form-field-outline-end'']
       [decl ''border-radius'' ''0 30px 30px 0''] []),
     Style (Rule [''app-help-center .mat-form-field-flex'']
       [decl ''align-items'' ''center''] []),
     Style (Rule [''app-help-center .mat-form-field-appearance-outline .mat-form-field-infix'']
       [decl ''padding-top'' ''0.5em''] []),
     Style (Rule
       [''app-help-center .mat-form-field-appearance-outline .mat-form-field-prefix'',
        ''app-help-center .mat-form-field-appearance-outline .mat-form-field-suffix'']
       [decl ''top'' ''0.1em''] []),
     Style (Rule
       [''app-help-center .mat-expansion-panel-header'',
        ''app-help-center .mat-expansion-panel-body'']
       [decl ''padding-left'' ''32px'',
        decl ''padding-right'' ''32px''] [])]"

definition filter_overrides :: "scss_statement list" where
  "filter_overrides =
    [Style (Rule
       [''app-filter-dropdown .mat-form-field-appearance-outline .mat-form-field-outline-start'',
        ''app-search-box .mat-form-field-appearance-outline .mat-form-field-outline-start'']
       [decl ''border-radius'' ''20px 0 0 20px'',
        decl ''min-width'' ''40px''] []),
     Style (Rule
       [''app-filter-dropdown .mat-form-field-appearance-outline .mat-form-field-outline-end'',
        ''app-search-box .mat-form-field-appearance-outline .mat-form-field-outline-end'']
       [decl ''border-radius'' ''0 20px 20px 0''] []),
     Style (Rule
       [''app-filter-dropdown .mat-form-field'',
        ''app-search-box .mat-form-field'']
       [decl ''min-height'' ''4em''] []),
     Style (Rule
       [''app-filter-dropdown .mat-form-field-appearance-outline .mat-form-field-outline'',
        ''app-search-box .mat-form-field-appearance-outline .mat-form-field-outline'']
       [decl ''bottom'' ''0.4em'',
        decl ''top'' ''1em''] []),
     Style (Rule
       [''app-filter-dropdown .filter-active.mat-form-field-appearance-outline .mat-form-field-outline'']
       [decl ''background-color'' ''rgba(209, 179, 195, 0.2)'',
        decl ''border-radius'' ''20px''] []),
     Style (Rule
       [''app-filter-dropdown .mat-form-field-appearance-outline .mat-select-arrow-wrapper'']
       [decl ''transform'' ''none''] []),
     Style (Rule [''app-filter-dropdown .mat-select-trigger'']
       [decl ''padding-left'' ''8px''] []),
     Style (Rule [''app-filter-dropdown .mat-option .mat-icon'']
       [decl ''margin-right'' ''0px''] []),
     Style (Rule [''.mat-primary .mat-option.mat-selected:not(.mat-option-disabled).black-on-select'']
       [decl ''color'' ''black''] [])]"

definition report_overrides :: "scss_statement list" where
  "report_overrides =
    [Style (Rule [''app-report-pdf''] [decl ''font-family'' '''Roboto', sans-serif''] []),
     Style (Rule [''app-report-pdf *''] [decl ''font-family'' ''inherit''] []),
     Style (Rule [''.chip-option .mat-option-text''] [decl ''padding-left'' ''8px''] []),
     Style (Rule [''.custom-option-multi-select'']
       [decl ''border-top'' ''1px solid rgba(0, 0, 0, 0.5)''] []),
     Style (Rule [''.custom-option-multi-select .mat-option-text'']
       [decl ''padding-left'' ''0px''] []),
     Style (Rule [''.custom-option-multi-select .mat-option-text mat-icon'']
       [decl ''font-size'' ''20px'',
        decl ''height'' ''20px'',
        decl ''margin-right'' ''8px'',
        decl ''width'' ''20px''] []),
     Style (Rule [''.custom-option-multi-select .mat-pseudo-checkbox'']
       [decl ''display'' ''none''] []),
     Style (Rule [''app-search-box .mat-chip-list-wrapper .mat-standard-chip'']
       [decl ''margin-bottom'' ''1px'',
        decl ''margin-left'' ''4px'',
        decl ''margin-right'' ''4px'',
        decl ''margin-top'' ''1px''] []),
     Style (Rule [''app-search-box .mat-form-field-appearance-outline .mat-form-field-flex'']
       [decl ''align-items'' ''center''] []),
     Style (Rule [''.filters-container .mat-form-field-infix'']
       [decl ''border-top'' ''0.65em solid transparent''] []),
     Style (Rule
       [''app-create-report .options-dropdown .mat-form-field-appearance-legacy .mat-form-field-underline'']
       [decl ''display'' ''none''] []),
     Style (Rule [''h2''] [decl ''font-size'' ''24px''] []),
     Style (Rule [''button''] []
       [Rule [''&.action-button'', ''&.action-button-stroked'']
          [decl ''border-radius'' ''18px'',
           decl ''text-transform'' ''capitalize''] [],
        Rule [''&.action-button'']
          [decl ''background-color'' ''#b23c66'',
           decl ''color'' ''#ffffff''] [],
        Rule [''&.action-button-stroked'']
          [decl ''background-color'' ''transparent'',
           decl ''border'' ''1px solid #a54167'',
           decl ''color'' ''#a54167''] []]),
     Style (Rule [''app-review-report .additional-notes textarea.mat-input-element'']
       [decl ''height'' ''235px''] []),
     Style (Rule [''app-review-report .mat-form-field-appearance-outline .mat-form-field-outline'']
       [decl ''background-color'' ''#fff'',
        decl ''border-radius'' ''5px'',
        decl ''color'' ''rgba(0, 0, 0, 0.54)''] []),
     Style (Rule [''app-create-report mat-paginator .mat-paginator-range-label'']
       [decl ''margin'' ''0''] []),
     Style (Rule [''app-create-report .loading mat-paginator .mat-paginator-range-label'']
       [decl ''visibility'' ''hidden''] [])]"

definition slider_overrides :: "scss_statement list" where
  "slider_overrides =
    [Style (Rule [''app-toxicity-range-filter .noUi-connects'']
       [decl ''background''
          ''linear-gradient(to right, #34a85340 0%, #fbbc0440 50%, #e9423540 100%)''] []),
     Style (Rule [''app-toxicity-range-filter .noUi-connect'']
       [decl ''background''
          ''linear-gradient(to right, #4d9966 0%, #9da1a3 50%, #e37400 100%)'',
        Declaration ''clip-path''
          (Inset [Percent 0, Calc_minus (Percent 100) (Var ''--max-score''), Percent 0,
                  Var ''--min-score''])
          False,
        decl_important ''transform'' ''none''] []),
     Style (Rule [''app-toxicity-range-filter .noUi-horizontal .noUi-handle'']
       [decl ''border-radius'' ''10px'',
        decl ''height'' ''20px'',
        decl ''top'' ''-8px'',
        decl ''width'' ''20px''] []),
     Style (Rule [''app-toxicity-range-filter .noUi-handle:before'', ''.noUi-handle:after'']
       [decl ''display'' ''none''] []),
     Style (Rule
       [''app-toxicity-range-selector-dialog .mat-form-field-infix'',
        ''app-toxicity-range-selector-dialog .mat-form-field-suffix'']
       [decl ''font-weight'' ''500''] []),
     Style (Rule [''app-welcome-page .mat-expansion-panel-content'']
       [decl ''font-size'' ''18px''] [])]"

definition tooltip_styles :: "scss_statement list" where
  "tooltip_styles =
    [Style (Rule [''.toxicity-tooltip'', ''.unscored-tooltip'', ''.actions-tooltip'']
       [decl ''background-color'' ''#b23c66'',
        decl ''color'' ''#fff'',
        decl ''font-size'' ''14px'',
        decl ''line-height'' ''22px'',
        decl_important ''padding'' ''16px''] [])]"

definition onboarding_styles :: "scss_statement list" where
  "onboarding_styles =
    [Style (Rule [''.onboarding-backdrop''] [decl ''background-color'' ''rgba(0, 0, 0, 0.6)''] []),
     Style (Rule [''.onboarding-view-settings''] [decl ''height'' ''202px''] []),
     Style (Rule [''.onboarding-filters''] [decl ''height'' ''190px''] []),
     Style (Rule [''.onboarding-pagination''] [decl ''height'' ''165px''] []),
     Style (Rule [''.onboarding-recommended-reports''] [decl ''height'' ''193px''] []),
     Style (Rule [''.onboarding-comment-card''] [decl ''height'' ''165px''] []),
     Style (Rule [''.onboarding-review-report''] [decl ''height'' ''188px''] []),
     Style (Rule
       [''.exit-dialog'',
        ''.onboarding-recommended-reports'',
        ''.onboarding-view-settings'',
        ''.onboarding-filters'',
        ''.onboarding-pagination'',
        ''.onboarding-comment-card'',
        ''.onboarding-review-report'']
       [decl ''background'' ''#b23c66'',
        decl ''box-shadow'' ''0px 2px 2px rgba(0, 0, 0, 0.24), 0px 0px 2px rgba(0, 0, 0, 0.12)'',
        decl ''color'' ''#ffffff'',
        decl ''font-size'' ''14px'',
        decl ''line-height'' ''22px'',
        decl ''width'' ''376px'']
       [Rule [''.message'']
          [decl ''padding-left'' ''22px'',
           decl ''padding-right'' ''24px''] [],
        Rule [''button'']
          [decl ''background-color'' ''#ffffff'',
           decl ''border-radius'' ''18px'',
           decl ''height'' ''36px'',
           decl ''margin-left'' ''22px'',
           decl ''margin-top'' ''8px'',
           decl ''text-transform'' ''uppercase'',
           decl ''width'' ''110px''] [],
        Rule [''h1'']
          [decl ''font-size'' ''24px'',
           decl ''line-height'' ''28px'',
           decl ''padding-left'' ''22px'',
           decl ''padding-right'' ''24px'',
           decl ''margin-bottom'' ''8px'',
           decl ''margin-top'' ''18px''] []])]"

definition max_slide_toggle_theme :: "string \<Rightarrow> string \<Rightarrow> css_rule list" where
  "max_slide_toggle_theme color left_offset =
    [Rule [''.mat-slide-toggle-bar'']
       [decl ''background-color'' ''transparent'',
        decl ''border'' (''1px solid '' @ color)] [],
     Rule [''.mat-slide-toggle-thumb-container'']
       [decl ''left'' left_offset] [],
     Rule [''.mat-slide-toggle-thumb'']
       [decl ''background-color'' color] []]"

definition toggle_styles :: "scss_statement list" where
  "toggle_styles =
    [Style (Rule [''.mat-slide-toggle''] []
       (max_slide_toggle_theme ''#606266'' ''-1px'')),
     Style (Rule [''.mat-slide-toggle.mat-checked''] []
       (max_slide_toggle_theme ''#a54167'' ''1px'' @
        [Rule [''.mat-slide-toggle-thumb::after'']
           [decl ''background'' ''url('assets/checkmark.svg') no-repeat 0 0'',
            decl ''content'' [CHR 0x27, CHR '' '', CHR 0x27],
            decl ''height'' ''18px'',
            decl ''width'' ''18px'',
            decl ''position'' ''absolute'',
            decl ''left'' ''1px'',
            decl ''top'' ''1px''] []]))]"

definition utility_styles :: "scss_statement list" where
  "utility_styles =
    [Style (Rule [''.dropdown-backdrop''] [decl ''background-color'' ''transparent''] []),
     Style (Rule [''.visually-hidden'']
       [decl ''clip'' ''rect(0 0 0 0)'',
        Declaration ''clip-path'' (Inset [Percent 50]) False,
        decl ''height'' ''1px'',
        decl ''overflow'' ''hidden'',
        decl ''position'' ''absolute'',
        decl ''white-space'' ''nowrap'',
        decl ''width'' ''1px''] [])]"

definition styles :: "scss_statement list" where
  "styles =
     theme_setup @ dialog_overrides @ help_center_overrides @ filter_overrides @
     report_overrides @ slider_overrides @ tooltip_styles @ onboarding_styles @
     toggle_styles @ utility_styles"


subsection \<open>Nesting and the flat list of declarations\<close>

text \<open>
  Sass resolves a nested rule against each selector of its parent: a nested selector
  that starts with \<open>&\<close> is appended to the parent selector, any other is a
  descendant of it. The flat list pairs every declaration with the resolved selector
  list of its rule, a rule's own declarations before those of its nested rules.
\<close>

definition resolve_selector :: "string \<Rightarrow> string \<Rightarrow> string" where
  "resolve_selector parent child =
     (case child of
        [] \<Rightarrow> parent
      | c # suffix \<Rightarrow> if c = CHR ''&'' then parent @ suffix else parent @ '' '' @ child)"

fun flatten_rule :: "string list \<Rightarrow> css_rule \<Rightarrow> (string list \<times> css_declaration) list" where
  "flatten_rule parents (Rule sels decls children) =
     (let full = (if parents = [] then sels
                  else concat (map (\<lambda>p. map (resolve_selector p) sels) parents))
      in map (Pair full) decls @ concat (map (flatten_rule full) children))"

fun statement_declarations :: "scss_statement \<Rightarrow> (string list \<times> css_declaration) list" where
  "statement_declarations (Style r) = flatten_rule [] r"
| "statement_declarations (Import target) = []"
| "statement_declarations (Include mixin arguments) = []"
| "statement_declarations (Variable name expression) = []"

definition all_declarations :: "scss_statement list \<Rightarrow> (string list \<times> css_declaration) list" where
  "all_declarations sheet = concat (map statement_declarations sheet)"

definition important_declarations ::
  "scss_statement list \<Rightarrow> (string list \<times> css_declaration) list" where
  "important_declarations sheet = filter (\<lambda>(sels, d). important d) (all_declarations sheet)"

definition property_declarations ::
  "string \<Rightarrow> scss_statement list \<Rightarrow> (string list \<times> css_declaration) list" where
  "property_declarations name sheet =
     filter (\<lambda>(sels, d). property d = name) (all_declarations sheet)"

definition declared_values :: "string \<Rightarrow> string \<Rightarrow> scss_statement list \<Rightarrow> css_value list" where
  "declared_values selector name sheet =
     map (\<lambda>(sels, d). val d)
       (filter (\<lambda>(sels, d). selector \<in> set sels) (property_declarations name sheet))"

subsection \<open>Computed value of an inset\<close>

text \<open>
  \<open>inset()\<close> takes one to four arguments, read like the sides of \<open>margin\<close>: top,
  right, bottom, left, a missing side taken from the opposite one (or from the first).
  Percentages are exact rationals. A custom property is looked up in the environment
  the element provides; with an unset property the declaration has no computed value.
\<close>

definition example_scores :: "string \<rightharpoonup> rat" where
  "example_scores = [''--min-score'' \<mapsto> 20, ''--max-score'' \<mapsto> 80]"

fun inset_sides :: "'a list \<Rightarrow> ('a \<times> 'a \<times> 'a \<times> 'a) option" where
  "inset_sides [a] = Some (a, a, a, a)"
| "inset_sides [a, b] = Some (a, b, a, b)"
| "inset_sides [a, b, c] = Some (a, b, c, b)"
| "inset_sides [a, b, c, d] = Some (a, b, c, d)"
| "inset_sides xs = None"

fun resolve_length :: "(string \<rightharpoonup> rat) \<Rightarrow> length_percentage \<Rightarrow> rat option" where
  "resolve_length env (Percent p) = Some p"
| "resolve_length env (Var name) = env name"
| "resolve_length env (Calc_minus x y) =
     (case (resolve_length env x, resolve_length env y) of
        (Some a, Some b) \<Rightarrow> Some (a - b)
      | _ \<Rightarrow> None)"

fun computed_inset :: "(string \<rightharpoonup> rat) \<Rightarrow> css_value \<Rightarrow> (rat \<times> rat \<times> rat \<times> rat) option" where
  "computed_inset env (Raw text) = None"
| "computed_inset env (Inset arguments) =
     (case inset_sides arguments of
        None \<Rightarrow> None
      | Some (t, r, b, l) \<Rightarrow>
          (case (resolve_length env t, resolve_length env r, resolve_length env b,
                 resolve_length env l) of
             (Some t', Some r', Some b', Some l') \<Rightarrow> Some (t', r', b', l')
           | _ \<Rightarrow> None))"

section \<open>Properties of the credential type guard\<close>

lemma isFirebaseCredential_Reference:
  "isFirebaseCredential (Reference a) s =
     (Inr (case s a ''signInMethod'' of None \<Rightarrow> False | Some v \<Rightarrow> v \<noteq> Undefined), s)"
  by (simp add: isFirebaseCredential_def strict_not_equal_def split: option.split)

lemma example_store_oauth: "example_store 10 ''signInMethod'' = Some (String ''twitter.com'')"
  by (simp add: example_store_def example_oauth_def)

lemma example_store_service: "example_store 20 ''signInMethod'' = None"
  by (simp add: example_store_def example_service_def)

text \<open>
  C1. For every input, \<open>isFirebaseCredential\<close> returns true exactly when the input is
  an object whose \<open>signInMethod\<close> property is present and not \<open>undefined\<close>. Every value
  shaped as an OAuth-style credential (property present and not absent) yields true, and
  every value shaped as a service credential (no \<open>signInMethod\<close> property) yields false.
\<close>

theorem isFirebaseCredential_iff_signInMethod:
  "((fst (isFirebaseCredential c s) = Inr True) =
      (\<exists>a v. c = Reference a \<and> s a ''signInMethod'' = Some v \<and> v \<noteq> Undefined)) \<and>
   (is_OAuthCredential s c \<longrightarrow> fst (isFirebaseCredential c s) = Inr True) \<and>
   (is_Credentials s c \<longrightarrow> fst (isFirebaseCredential c s) = Inr False)"
proof (intro conjI impI)
  show "(fst (isFirebaseCredential c s) = Inr True) =
     (\<exists>a v. c = Reference a \<and> s a ''signInMethod'' = Some v \<and> v \<noteq> Undefined)"
    by (cases c)
      (simp_all add: isFirebaseCredential_def strict_not_equal_def split: option.split)
next
  assume "is_OAuthCredential s c"
  then show "fst (isFirebaseCredential c s) = Inr True"
    by (cases c) (simp_all add: isFirebaseCredential_Reference split: option.splits)
next
  assume "is_Credentials s c"
  then show "fst (isFirebaseCredential c s) = Inr False"
    by (cases c) (simp_all add: isFirebaseCredential_Reference)
qed

theorem isFirebaseCredential_iff_signInMethod_witness:
  "is_OAuthCredential example_store (Reference 10) \<and>
   fst (isFirebaseCredential (Reference 10) example_store) = Inr True \<and>
   is_Credentials example_store (Reference 20) \<and>
   fst (isFirebaseCredential (Reference 20) example_store) = Inr False"
proof -
  have oauth: "is_OAuthCredential example_store (Reference 10)"
    by (simp add: example_store_oauth)
  have service: "is_Credentials example_store (Reference 20)"
    by (simp add: example_store_service)
  from oauth isFirebaseCredential_iff_signInMethod [of "Reference 10" example_store]
  have "fst (isFirebaseCredential (Reference 10) example_store) = Inr True"
    by blast
  moreover
  from service isFirebaseCredential_iff_signInMethod [of "Reference 20" example_store]
  have "fst (isFirebaseCredential (Reference 20) example_store) = Inr False"
    by blast
  ultimately show ?thesis
    using oauth service by blast
qed

text \<open>
  Outside the declared union the member expression throws: \<open>null\<close> and \<open>undefined\<close>
  have no properties to read.
\<close>

lemma isFirebaseCredential_nullish:
  "isFirebaseCredential Undefined s = (Inl TypeError, s)"
  "isFirebaseCredential Null s = (Inl TypeError, s)"
  by (simp_all add: isFirebaseCredential_def)

text \<open>
  C6. The type guard is total over its declared union: for every value shaped as an
  OAuth-style credential or as a service credential it returns a boolean, it does not
  throw, and the store after the call is the store before it. The function is not
  recursive, so it terminates on every input.
\<close>

theorem isFirebaseCredential_total:
  "is_OAuthCredential s c \<or> is_Credentials s c \<Longrightarrow>
     \<exists>b. isFirebaseCredential c s = (Inr b, s)"
  by (cases c) (simp_all add: isFirebaseCredential_Reference)

theorem isFirebaseCredential_total_witness:
  "(is_OAuthCredential example_store (Reference 10) \<or> is_Credentials example_store (Reference 10)) \<and>
   isFirebaseCredential (Reference 10) example_store = (Inr True, example_store) \<and>
   (is_OAuthCredential example_store (Reference 20) \<or> is_Credentials example_store (Reference 20)) \<and>
   isFirebaseCredential (Reference 20) example_store = (Inr False, example_store)"
proof -
  have oauth: "is_OAuthCredential example_store (Reference 10)"
    by (simp add: example_store_oauth)
  have service: "is_Credentials example_store (Reference 20)"
    by (simp add: example_store_service)
  from isFirebaseCredential_total [of example_store "Reference 10"] oauth
  obtain b where b: "isFirebaseCredential (Reference 10) example_store = (Inr b, example_store)"
    by blast
  then have "b = True"
    by (simp add: isFirebaseCredential_Reference example_store_oauth)
  from isFirebaseCredential_total [of example_store "Reference 20"] service
  obtain b' where b': "isFirebaseCredential (Reference 20) example_store = (Inr b', example_store)"
    by blast
  then have "b' = False"
    by (simp add: isFirebaseCredential_Reference example_store_service)
  show ?thesis
    using oauth service b b' \<open>b = True\<close> \<open>b' = False\<close> by simp
qed

text \<open>
  C10. The result depends on the \<open>signInMethod\<close> property only: two objects whose
  \<open>signInMethod\<close> reads are both \<open>undefined\<close> (absent, or present with that value) or
  both defined get the same result, whatever their other properties and whatever store
  each lives in. An object with a defined \<open>signInMethod\<close> is classified as an OAuth
  credential whatever else it holds; the example is a service credential to which such a
  property was added.
\<close>

theorem isFirebaseCredential_depends_on_signInMethod_only:
  "(((s1 a1 ''signInMethod'' = None \<or> s1 a1 ''signInMethod'' = Some Undefined) =
     (s2 a2 ''signInMethod'' = None \<or> s2 a2 ''signInMethod'' = Some Undefined)) \<longrightarrow>
    fst (isFirebaseCredential (Reference a1) s1) = fst (isFirebaseCredential (Reference a2) s2)) \<and>
   (v \<noteq> Undefined \<longrightarrow>
    fst (isFirebaseCredential (Reference a) (s(a := obj(''signInMethod'' \<mapsto> v)))) = Inr True)"
  by (auto simp add: isFirebaseCredential_Reference split: option.splits)

theorem isFirebaseCredential_depends_on_signInMethod_only_witness:
  "is_Credentials example_store (Reference 20) \<and>
   fst (isFirebaseCredential (Reference 20)
          (example_store(20 := example_service_with_signInMethod))) = Inr True \<and>
   fst (isFirebaseCredential (Reference 20)
          (example_store(20 := example_service_with_signInMethod))) =
   fst (isFirebaseCredential (Reference 10) example_store)"
proof -
  let ?s = "example_store(20 := example_service_with_signInMethod)"
  have service: "is_Credentials example_store (Reference 20)"
    by (simp add: example_store_service)
  have defined: "String ''password'' \<noteq> Undefined"
    by simp
  from isFirebaseCredential_depends_on_signInMethod_only
         [of _ _ _ _ "String ''password''" 20 example_store example_service] defined
  have carried: "fst (isFirebaseCredential (Reference 20) ?s) = Inr True"
    by (simp add: example_service_with_signInMethod_def)
  have both_defined:
    "(?s 20 ''signInMethod'' = None \<or> ?s 20 ''signInMethod'' = Some Undefined) =
     (example_store 10 ''signInMethod'' = None \<or>
      example_store 10 ''signInMethod'' = Some Undefined)"
    by (simp add: example_store_oauth example_service_with_signInMethod_def)
  from isFirebaseCredential_depends_on_signInMethod_only
         [of ?s 20 example_store 10] both_defined
  have "fst (isFirebaseCredential (Reference 20) ?s) =
        fst (isFirebaseCredential (Reference 10) example_store)"
    by blast
  with service carried show ?thesis
    by blast
qed

section \<open>Properties of the data shapes\<close>

lemma rows_have_length_iff:
  "rows_have_length n rows = (\<forall>row \<in> set rows. length row = n)"
  by (induction rows) auto

text \<open>
  C3. A \<open>CsvFileTemplate\<close> is well-formed if and only if the length of every body row
  equals the length of the header row. The check accepts the template with a header of
  two columns and three rows of two cells, and rejects the same template with one more
  row of a single cell.
\<close>

theorem csv_well_formed_iff:
  "(csv_well_formed template =
      (\<forall>row \<in> set (bodyRows template). length row = length (header template))) \<and>
   csv_well_formed valid_template \<and> \<not> csv_well_formed invalid_template"
  by (simp add: csv_well_formed_def rows_have_length_iff valid_template_def
        invalid_template_def)

theorem csv_well_formed_iff_witness:
  "csv_well_formed valid_template \<and>
   length (header valid_template) = 2 \<and> length (bodyRows valid_template) = 3 \<and>
   \<not> csv_well_formed invalid_template \<and>
   (\<exists>row \<in> set (bodyRows invalid_template). length row \<noteq> length (header invalid_template))"
proof -
  have "\<not> csv_well_formed invalid_template"
    using csv_well_formed_iff [of invalid_template] by blast
  then have "\<exists>row \<in> set (bodyRows invalid_template).
      length row \<noteq> length (header invalid_template)"
    using csv_well_formed_iff [of invalid_template] by blast
  moreover have "csv_well_formed valid_template"
    using csv_well_formed_iff [of valid_template] by blast
  moreover have "length (header valid_template) = 2 \<and> length (bodyRows valid_template) = 3"
    by (simp add: valid_template_def)
  ultimately show ?thesis
    using \<open>\<not> csv_well_formed invalid_template\<close> by blast
qed

lemma BuildReportStep_numbering:
  "enum_values 0 BuildReportStep_members =
     [(NONE, 0), (ADD_COMMENTS, 1), (EDIT_DETAILS, 2), (TAKE_ACTION, 3), (COMPLETE, 4)]"
  by (simp add: BuildReportStep_members_def)

lemma BuildReportStep_values:
  "BuildReportStep_value NONE = Some 0"
  "BuildReportStep_value ADD_COMMENTS = Some 1"
  "BuildReportStep_value EDIT_DETAILS = Some 2"
  "BuildReportStep_value TAKE_ACTION = Some 3"
  "BuildReportStep_value COMPLETE = Some 4"
  by (simp_all add: BuildReportStep_value_def BuildReportStep_numbering)

text \<open>
  C4. The five values of \<open>BuildReportStep\<close> are numbered 0 to 4 in the order of their
  declaration, so they compare in the order \<open>NONE < ADD_COMMENTS < EDIT_DETAILS <
  TAKE_ACTION < COMPLETE\<close>: of any two steps, the one declared earlier is strictly less
  than the one declared later.
\<close>

theorem BuildReportStep_order:
  "map BuildReportStep_value [NONE, ADD_COMMENTS, EDIT_DETAILS, TAKE_ACTION, COMPLETE] =
     [Some 0, Some 1, Some 2, Some 3, Some 4] \<and>
   step_less NONE ADD_COMMENTS \<and> step_less ADD_COMMENTS EDIT_DETAILS \<and>
   step_less EDIT_DETAILS TAKE_ACTION \<and> step_less TAKE_ACTION COMPLETE \<and>
   map fst BuildReportStep_members = [NONE, ADD_COMMENTS, EDIT_DETAILS, TAKE_ACTION, COMPLETE] \<and>
   sorted_wrt step_less (map fst BuildReportStep_members)"
  by (simp add: BuildReportStep_values step_less_def BuildReportStep_members_def)

text \<open>
  C7. A \<open>GetTweetsResponse\<close> without a \<open>nextPageToken\<close> is the final page, and no
  follow-up request is formed from it. From a response with a token a follow-up
  \<open>GetTweetsRequest\<close> is formed that carries this token as its \<open>nextPageToken\<close> and
  keeps \<open>fromDate\<close>, \<open>toDate\<close> and the credentials of the request before it.
\<close>

theorem get_tweets_pagination:
  "(GetTweetsResponse.nextPageToken response = None \<longrightarrow>
      is_final_page response \<and> follow_up_request request response = None) \<and>
   (\<forall>token. GetTweetsResponse.nextPageToken response = Some token \<longrightarrow>
      \<not> is_final_page response \<and>
      (\<exists>next. follow_up_request request response = Some next \<and>
         GetTweetsRequest.nextPageToken next = Some token \<and>
         fromDate next = fromDate request \<and> toDate next = toDate request \<and>
         credentials next = credentials request))"
  by (simp add: is_final_page_def follow_up_request_def)

theorem get_tweets_pagination_witness:
  "GetTweetsResponse.nextPageToken example_last_page = None \<and>
   is_final_page example_last_page \<and>
   follow_up_request example_request example_last_page = None \<and>
   GetTweetsResponse.nextPageToken example_page = Some ''cursor-2'' \<and>
   \<not> is_final_page example_page \<and>
   follow_up_request example_request example_page =
     Some \<lparr>credentials = None, GetTweetsRequest.nextPageToken = Some ''cursor-2'',
           fromDate = ''202011160000'', toDate = ''202011170000''\<rparr>"
proof -
  have last: "GetTweetsResponse.nextPageToken example_last_page = None"
    by (simp add: example_last_page_def)
  have page: "GetTweetsResponse.nextPageToken example_page = Some ''cursor-2''"
    by (simp add: example_page_def)
  from last get_tweets_pagination [of example_last_page example_request]
  have final: "is_final_page example_last_page \<and>
      follow_up_request example_request example_last_page = None"
    by blast
  from page get_tweets_pagination [of example_page example_request]
  obtain "next" where more: "\<not> is_final_page example_page"
    and "next": "follow_up_request example_request example_page = Some next"
      "GetTweetsRequest.nextPageToken next = Some ''cursor-2''"
      "fromDate next = fromDate example_request" "toDate next = toDate example_request"
      "credentials next = credentials example_request"
    by blast
  have "next = \<lparr>credentials = None, GetTweetsRequest.nextPageToken = Some ''cursor-2'',
           fromDate = ''202011160000'', toDate = ''202011170000''\<rparr>"
    using "next"(2-5) by (cases "next") (simp add: example_request_def)
  with last page final more "next"(1) show ?thesis
    by simp
qed

text \<open>
  C8. The responses to blocking and to muting users represent three outcomes and tell
  them apart: full success (no \<open>error\<close>, and \<open>failedScreennames\<close> absent or empty),
  partial success (no \<open>error\<close>, and a non-empty \<open>failedScreennames\<close>), and total
  failure (\<open>error\<close> set). Every response has exactly one of the three outcomes, and each
  outcome is the outcome of some response.
\<close>

theorem batch_outcomes:
  "((block_outcome b = FullSuccess) =
      (BlockTwitterUsersResponse.error b = None \<and>
       (BlockTwitterUsersResponse.failedScreennames b = None \<or>
        BlockTwitterUsersResponse.failedScreennames b = Some []))) \<and>
   ((block_outcome b = PartialSuccess) =
      (BlockTwitterUsersResponse.error b = None \<and>
       (\<exists>name names. BlockTwitterUsersResponse.failedScreennames b = Some (name # names)))) \<and>
   ((block_outcome b = TotalFailure) = (\<exists>message. BlockTwitterUsersResponse.error b = Some message)) \<and>
   ((mute_outcome m = FullSuccess) =
      (MuteTwitterUsersResponse.error m = None \<and>
       (MuteTwitterUsersResponse.failedScreennames m = None \<or>
        MuteTwitterUsersResponse.failedScreennames m = Some []))) \<and>
   ((mute_outcome m = PartialSuccess) =
      (MuteTwitterUsersResponse.error m = None \<and>
       (\<exists>name names. MuteTwitterUsersResponse.failedScreennames m = Some (name # names)))) \<and>
   ((mute_outcome m = TotalFailure) = (\<exists>message. MuteTwitterUsersResponse.error m = Some message)) \<and>
   (\<exists>r. block_outcome r = FullSuccess) \<and> (\<exists>r. block_outcome r = PartialSuccess) \<and>
   (\<exists>r. block_outcome r = TotalFailure) \<and>
   (\<exists>r. mute_outcome r = FullSuccess) \<and> (\<exists>r. mute_outcome r = PartialSuccess) \<and>
   (\<exists>r. mute_outcome r = TotalFailure)"
proof -
  have shape: "\<And>e f.
      ((action_outcome e f = FullSuccess) = (e = None \<and> (f = None \<or> f = Some []))) \<and>
      ((action_outcome e f = PartialSuccess) = (e = None \<and> (\<exists>name names. f = Some (name # names)))) \<and>
      ((action_outcome e f = TotalFailure) = (\<exists>message. e = Some message))"
    subgoal for e f
      by (cases "(e, f)" rule: action_outcome.cases) simp_all
    done
  have "block_outcome \<lparr>BlockTwitterUsersResponse.error = None, failedScreennames = None\<rparr> = FullSuccess"
    "block_outcome \<lparr>BlockTwitterUsersResponse.error = None, failedScreennames = Some [''a'']\<rparr> = PartialSuccess"
    "block_outcome \<lparr>BlockTwitterUsersResponse.error = Some ''e'', failedScreennames = None\<rparr> = TotalFailure"
    "mute_outcome \<lparr>MuteTwitterUsersResponse.error = None, failedScreennames = None\<rparr> = FullSuccess"
    "mute_outcome \<lparr>MuteTwitterUsersResponse.error = None, failedScreennames = Some [''a'']\<rparr> = PartialSuccess"
    "mute_outcome \<lparr>MuteTwitterUsersResponse.error = Some ''e'', failedScreennames = None\<rparr> = TotalFailure"
    by (simp_all add: block_outcome_def mute_outcome_def)
  then have "(\<exists>r. block_outcome r = FullSuccess) \<and> (\<exists>r. block_outcome r = PartialSuccess) \<and>
   (\<exists>r. block_outcome r = TotalFailure) \<and>
   (\<exists>r. mute_outcome r = FullSuccess) \<and> (\<exists>r. mute_outcome r = PartialSuccess) \<and>
   (\<exists>r. mute_outcome r = TotalFailure)"
    by blast
  with shape [of "BlockTwitterUsersResponse.error b" "BlockTwitterUsersResponse.failedScreennames b"]
    shape [of "MuteTwitterUsersResponse.error m" "MuteTwitterUsersResponse.failedScreennames m"]
  show ?thesis
    unfolding block_outcome_def mute_outcome_def by blast
qed

section \<open>Properties of the stylesheet\<close>

lemma all_declarations_append:
  "all_declarations (xs @ ys) = all_declarations xs @ all_declarations ys"
  by (simp add: all_declarations_def)

lemma important_declarations_append:
  "important_declarations (xs @ ys) = important_declarations xs @ important_declarations ys"
  by (simp add: important_declarations_def all_declarations_append)

lemma important_theme_setup: "important_declarations theme_setup = []"
  by code_simp

lemma important_dialog_overrides: "important_declarations dialog_overrides = []"
  by code_simp

lemma important_help_center_overrides: "important_declarations help_center_overrides = []"
  by code_simp

lemma important_filter_overrides: "important_declarations filter_overrides = []"
  by code_simp

lemma important_report_overrides: "important_declarations report_overrides = []"
  by code_simp

lemma important_slider_overrides:
  "important_declarations slider_overrides =
     [([''app-toxicity-range-filter .noUi-connect''], decl_important ''transform'' ''none'')]"
  by code_simp

lemma important_tooltip_styles:
  "important_declarations tooltip_styles =
     [([''.toxicity-tooltip'', ''.unscored-tooltip'', ''.actions-tooltip''],
       decl_important ''padding'' ''16px'')]"
  by code_simp

lemma important_onboarding_styles: "important_declarations onboarding_styles = []"
  by code_simp

lemma important_toggle_styles: "important_declarations toggle_styles = []"
  by code_simp

lemma important_utility_styles: "important_declarations utility_styles = []"
  by code_simp

lemma important_by_group:
  "important_declarations styles =
     important_declarations slider_overrides @ important_declarations tooltip_styles"
  by (simp add: styles_def important_declarations_append important_theme_setup
        important_dialog_overrides important_help_center_overrides important_filter_overrides
        important_report_overrides important_onboarding_styles important_toggle_styles
        important_utility_styles)

text \<open>
  C2, as the stylesheet has it. The \<open>!important\<close> marker is used exactly twice: on the
  \<open>transform: none\<close> declaration of the range slider's connector
  (\<open>app-toxicity-range-filter .noUi-connect\<close>) and on the \<open>padding: 16px\<close> declaration
  of the three tooltip classes. No other declaration of the stylesheet carries it.
\<close>

theorem important_used_twice:
  "important_declarations styles =
     [([''app-toxicity-range-filter .noUi-connect''], decl_important ''transform'' ''none''),
      ([''.toxicity-tooltip'', ''.unscored-tooltip'', ''.actions-tooltip''],
       decl_important ''padding'' ''16px'')]"
  by (simp only: important_by_group important_slider_overrides important_tooltip_styles
        append.simps)

text \<open>
  C2, as stated: the marker is used exactly once, on the tooltip padding. This fails: the
  declarations that carry the marker are not the tooltip padding alone, and their number
  is not one.
\<close>

theorem important_not_used_once:
  "important_declarations styles \<noteq>
     [([''.toxicity-tooltip'', ''.unscored-tooltip'', ''.actions-tooltip''],
       decl_important ''padding'' ''16px'')] \<and>
   length (important_declarations styles) \<noteq> 1"
  by (simp add: important_by_group important_slider_overrides important_tooltip_styles)

lemma height_declarations:
  "property_declarations ''height'' styles =
    [([''body''], decl ''height'' ''100vh''),
     ([''.custom-option-multi-select .mat-option-text mat-icon''], decl ''height'' ''20px''),
     ([''app-review-report .additional-notes textarea.mat-input-element''],
      decl ''height'' ''235px''),
     ([''app-toxicity-range-filter .noUi-horizontal .noUi-handle''], decl ''height'' ''20px''),
     ([''.onboarding-view-settings''], decl ''height'' ''202px''),
     ([''.onboarding-filters''], decl ''height'' ''190px''),
     ([''.onboarding-pagination''], decl ''height'' ''165px''),
     ([''.onboarding-recommended-reports''], decl ''height'' ''193px''),
     ([''.onboarding-comment-card''], decl ''height'' ''165px''),
     ([''.onboarding-review-report''], decl ''height'' ''188px''),
     ([''.exit-dialog button'', ''.onboarding-recommended-reports button'',
       ''.onboarding-view-settings button'', ''.onboarding-filters button'',
       ''.onboarding-pagination button'', ''.onboarding-comment-card button'',
       ''.onboarding-review-report button''],
      decl ''height'' ''36px''),
     ([''.mat-slide-toggle.mat-checked .mat-slide-toggle-thumb::after''],
      decl ''height'' ''18px''),
     ([''.visually-hidden''], decl ''height'' ''1px'')]"
  by code_simp

text \<open>
  C9. Each of the six onboarding overlay cards has exactly one \<open>height\<close> declaration,
  with the value of the specification: view-settings 202px, filters 190px, pagination
  165px, recommended-reports 193px, comment-card 165px, review-report 188px.
\<close>

theorem onboarding_heights:
  "declared_values ''.onboarding-view-settings'' ''height'' styles = [Raw ''202px''] \<and>
   declared_values ''.onboarding-filters'' ''height'' styles = [Raw ''190px''] \<and>
   declared_values ''.onboarding-pagination'' ''height'' styles = [Raw ''165px''] \<and>
   declared_values ''.onboarding-recommended-reports'' ''height'' styles = [Raw ''193px''] \<and>
   declared_values ''.onboarding-comment-card'' ''height'' styles = [Raw ''165px''] \<and>
   declared_values ''.onboarding-review-report'' ''height'' styles = [Raw ''188px'']"
  by (simp add: declared_values_def height_declarations)

lemma clip_path_declarations:
  "property_declarations ''clip-path'' styles =
    [([''app-toxicity-range-filter .noUi-connect''],
      Declaration ''clip-path''
        (Inset [Percent 0, Calc_minus (Percent 100) (Var ''--max-score''), Percent 0,
                Var ''--min-score''])
        False),
     ([''.visually-hidden''], Declaration ''clip-path'' (Inset [Percent 50]) False)]"
  by code_simp

lemma connector_clip_path:
  "declared_values ''app-toxicity-range-filter .noUi-connect'' ''clip-path'' styles =
     [Inset [Percent 0, Calc_minus (Percent 100) (Var ''--max-score''), Percent 0,
             Var ''--min-score'']]"
  by (simp add: declared_values_def clip_path_declarations)

text \<open>
  C5. For every pair of scores supplied through the custom properties \<open>--min-score\<close>
  and \<open>--max-score\<close>, the clip path of the range slider's connector is the inset with
  0% at the top and at the bottom, 100% minus the maximum score on the right, and the
  minimum score on the left. With a minimum of 20% and a maximum of 80% it is
  \<open>inset(0% 20% 0% 20%)\<close>.
\<close>

theorem connector_clip_inset:
  "env ''--min-score'' = Some min_score \<Longrightarrow> env ''--max-score'' = Some max_score \<Longrightarrow>
   map (computed_inset env)
     (declared_values ''app-toxicity-range-filter .noUi-connect'' ''clip-path'' styles) =
   [Some (0, 100 - max_score, 0, min_score)]"
  by (simp add: connector_clip_path)

theorem connector_clip_inset_witness:
  "example_scores ''--min-score'' = Some 20 \<and> example_scores ''--max-score'' = Some 80 \<and>
   map (computed_inset example_scores)
     (declared_values ''app-toxicity-range-filter .noUi-connect'' ''clip-path'' styles) =
   [Some (0, 20, 0, 20)]"
proof -
  have lo: "example_scores ''--min-score'' = Some 20"
    and hi: "example_scores ''--max-score'' = Some 80"
    by (simp_all add: example_scores_def)
  from connector_clip_inset [OF lo hi] lo hi show ?thesis
    by simp
qed

end
